theory Spec2Isabelle
  imports Main "HOL-Library.Word"
begin

section \<open>Talos client resolution for control-plane machines (controllers/configs.go)\<close>

text \<open>
  The file builds a Talos administration client for a set of machines. Two functions do
  the work: \<^verbatim>\<open>talosconfigForMachines\<close> (addresses reported on the Machine objects) and
  \<^verbatim>\<open>talosconfigFromWorkloadCluster\<close> (addresses of the Nodes of the workload cluster,
  reached through \<^verbatim>\<open>kubeconfigForCluster\<close>). Every call that leaves the process (the
  management-cluster client, the workload-cluster clientset, the parsers and constructors
  of the libraries) is a field of the record \<open>reconciler\<close> below, and every function
  returns, next to its result, the list of such calls it made, in order.
\<close>

subsection \<open>Data\<close>

type_synonym bytes = "8 word list"

text \<open>\<^verbatim>\<open>time.Duration\<close> is an \<^verbatim>\<open>int64\<close> count of nanoseconds.\<close>

type_synonym Duration = "64 word"

definition Second :: Duration where
  "Second = 1000000000"

record ObjectKey =
  key_Namespace :: string
  key_Name :: string

record OwnerReference =
  ref_Kind :: string
  ref_Name :: string

record TalosConfig =
  cfg_Name :: string
  cfg_OwnerReferences :: "OwnerReference list"
  cfg_Status_TalosConfig :: string

text \<open>
  Address types are string types in both APIs; the constants are those of
  \<^verbatim>\<open>clusterv1\<close> and \<^verbatim>\<open>corev1\<close>.
\<close>

definition MachineExternalIP :: string where "MachineExternalIP = ''ExternalIP''"
definition MachineInternalIP :: string where "MachineInternalIP = ''InternalIP''"
definition NodeExternalIP :: string where "NodeExternalIP = ''ExternalIP''"
definition NodeInternalIP :: string where "NodeInternalIP = ''InternalIP''"

record MachineAddress =
  maddr_Type :: string
  maddr_Address :: string

record ObjectReference =
  objref_Name :: string

record Machine =
  machine_Namespace :: string
  machine_Name :: string
  machine_Status_Addresses :: "MachineAddress list"
  machine_Status_NodeRef :: "ObjectReference option"

record NodeAddress =
  naddr_Type :: string
  naddr_Address :: string

record Node =
  node_Name :: string
  node_Status_Addresses :: "NodeAddress list"

record Secret =
  secret_Data :: "string \<rightharpoonup> bytes"

text \<open>
  Modelled from the spec: the type of \<^verbatim>\<open>Spec.ControlPlaneConfig.InitConfig\<close> is declared in
  the bootstrap provider's API package, which this file only imports. The spec says that
  the mode is decided by the init config being "non-zero/non-empty"; the record below has
  the string fields and the slice of that struct, a \<^verbatim>\<open>nil\<close> slice being \<open>None\<close>.
  \<^verbatim>\<open>reflect.Value.IsZero\<close> on a struct holds when every field is its zero value.
\<close>

record ConfigPatches =
  patch_Op :: string
  patch_Path :: string
  patch_Value :: string

record TalosConfigSpec =
  spec_TalosVersion :: string
  spec_GenerateType :: string
  spec_Data :: string
  spec_ConfigPatches :: "ConfigPatches list option"

definition IsZero :: "TalosConfigSpec \<Rightarrow> bool" where
  "IsZero s =
     (spec_TalosVersion s = [] \<and> spec_GenerateType s = [] \<and> spec_Data s = [] \<and>
      spec_ConfigPatches s = None)"

record TalosControlPlane =
  tcp_Namespace :: string
  tcp_Labels :: "string \<rightharpoonup> string"
  tcp_InitConfig :: TalosConfigSpec

text \<open>Reading a key that a Go map does not hold gives the zero value.\<close>

definition label :: "(string \<rightharpoonup> string) \<Rightarrow> string \<Rightarrow> string" where
  "label m k = (case m k of None \<Rightarrow> [] | Some v \<Rightarrow> v)"

definition data :: "(string \<rightharpoonup> bytes) \<Rightarrow> string \<Rightarrow> bytes" where
  "data m k = (case m k of None \<Rightarrow> [] | Some v \<Rightarrow> v)"

record net_Dialer =
  Timeout :: Duration
  KeepAlive :: Duration

datatype connrotation_Dialer = NewDialer net_Dialer

record rest_Config =
  rest_Host :: string
  rest_Dial :: "connrotation_Dialer option"

datatype Clientset = ClientsetFor rest_Config

record kubernetesClient =
  k_Clientset :: Clientset
  k_dialer :: connrotation_Dialer

record talos_Config =
  talos_Context :: string

record talos_Client =
  client_endpoints :: "string list"
  client_config :: "talos_Config option"

subsection \<open>Errors and calls\<close>

text \<open>
  The four errors the file makes itself (\<^verbatim>\<open>fmt.Errorf\<close>), and the errors of the
  collaborators, which the file returns unchanged; the constructor records which call
  the error came from.
\<close>

datatype error =
    AtLeastOneMachine
  | NoAddressesFound string
  | NoNodeRef string
  | TalosConfigNotFound string
  | StoreError string
  | KubeconfigError string
  | ClientsetError string
  | NodeError string
  | TalosConfigError string
  | TalosClientError string

datatype call =
    Call_Get string string
  | Call_RESTConfigFromKubeConfig bytes
  | Call_NewDialer
  | Call_NewForConfig rest_Config
  | Call_Nodes_Get string
  | Call_List string
  | Call_FromString string
  | Call_talosclient_New "string list"
  | Call_CloseAll connrotation_Dialer

record reconciler =
  client_Get :: "string \<Rightarrow> string \<Rightarrow> string + Secret"
  client_List :: "string \<Rightarrow> string + TalosConfig list"
  RESTConfigFromKubeConfig :: "bytes \<Rightarrow> string + rest_Config"
  NewForConfig :: "rest_Config \<Rightarrow> string + Clientset"
  nodes_Get :: "Clientset \<Rightarrow> string \<Rightarrow> string + Node"
  talosconfig_FromString :: "string \<Rightarrow> string + talos_Config"
  talosclient_New :: "string list \<Rightarrow> talos_Config option \<Rightarrow> string + talos_Client"
  loopvar_per_iteration :: bool

text \<open>
  \<open>loopvar_per_iteration\<close> is the language version the module is built with, which is
  not in this file: from Go 1.22 a \<^verbatim>\<open>range\<close> loop has a fresh variable in each iteration,
  before that one variable for the whole loop.
\<close>

type_synonym 'a outcome = "(error + 'a) \<times> call list"

definition ret :: "'a \<Rightarrow> 'a outcome" where
  "ret x = (Inr x, [])"

definition fail :: "error \<Rightarrow> 'a outcome" where
  "fail e = (Inl e, [])"

text \<open>One call: it is recorded, and its error, if any, is the result.\<close>

definition perform :: "call \<Rightarrow> (string \<Rightarrow> error) \<Rightarrow> string + 'a \<Rightarrow> 'a outcome" where
  "perform c origin res =
     (case res of Inl e \<Rightarrow> (Inl (origin e), [c]) | Inr x \<Rightarrow> (Inr x, [c]))"

text \<open>\<^verbatim>\<open>if err != nil { return nil, err }\<close>: an error ends the function.\<close>

definition bind :: "'a outcome \<Rightarrow> ('a \<Rightarrow> 'b outcome) \<Rightarrow> 'b outcome" where
  "bind m f =
     (case m of
        (Inl e, tr) \<Rightarrow> (Inl e, tr)
      | (Inr x, tr) \<Rightarrow> (case f x of (res, tr') \<Rightarrow> (res, tr @ tr')))"

text \<open>\<^verbatim>\<open>for _, x := range xs { ... }\<close> over a state, a \<^verbatim>\<open>return\<close> in the body ending it.\<close>

fun rangeLoop :: "('a \<Rightarrow> 's \<Rightarrow> 's outcome) \<Rightarrow> 'a list \<Rightarrow> 's \<Rightarrow> 's outcome" where
  "rangeLoop body [] s = ret s"
| "rangeLoop body (x # xs) s = bind (body x s) (rangeLoop body xs)"

subsection \<open>The workload-cluster client\<close>

definition Close :: "kubernetesClient \<Rightarrow> unit outcome" where
  "Close k = (Inr (), [Call_CloseAll (k_dialer k)])"

definition newDialer :: "connrotation_Dialer outcome" where
  "newDialer =
     (Inr (NewDialer \<lparr>Timeout = 30 * Second, KeepAlive = 30 * Second\<rparr>), [Call_NewDialer])"

definition kubeconfigForCluster :: "reconciler \<Rightarrow> ObjectKey \<Rightarrow> kubernetesClient outcome" where
  "kubeconfigForCluster r cluster =
     bind (perform (Call_Get (key_Namespace cluster) (key_Name cluster @ ''-kubeconfig'')) StoreError
             (client_Get r (key_Namespace cluster) (key_Name cluster @ ''-kubeconfig'')))
      (\<lambda>kubeconfigSecret.
     bind (perform (Call_RESTConfigFromKubeConfig (data (secret_Data kubeconfigSecret) ''value''))
             KubeconfigError
             (RESTConfigFromKubeConfig r (data (secret_Data kubeconfigSecret) ''value'')))
      (\<lambda>config.
     bind newDialer
      (\<lambda>dialer.
     bind (perform (Call_NewForConfig (config\<lparr>rest_Dial := Some dialer\<rparr>)) ClientsetError
             (NewForConfig r (config\<lparr>rest_Dial := Some dialer\<rparr>)))
      (\<lambda>clientset. ret \<lparr>k_Clientset = clientset, k_dialer = dialer\<rparr>))))"

subsection \<open>Finding the TalosConfig of a machine\<close>

text \<open>
  The inner loop over \<^verbatim>\<open>cfg.OwnerReferences\<close>: whether it reaches the assignment
  \<^verbatim>\<open>found = &cfg\<close>.
\<close>

fun scanOwnerReferences :: "string \<Rightarrow> OwnerReference list \<Rightarrow> bool" where
  "scanOwnerReferences name [] = False"
| "scanOwnerReferences name (ref # refs) =
     (if ref_Kind ref = ''Machine'' \<and> ref_Name ref = name then True
      else scanOwnerReferences name refs)"

text \<open>
  \<^verbatim>\<open>talosconfigForMachines\<close>, lines 117 to 125: the assignment is followed by
  \<^verbatim>\<open>break outer\<close>, which leaves both loops, so \<^verbatim>\<open>cfg\<close> is not assigned again and
  \<^verbatim>\<open>*found\<close> is the item of that iteration.
\<close>

fun findBreakOuter :: "string \<Rightarrow> TalosConfig list \<Rightarrow> TalosConfig option" where
  "findBreakOuter name [] = None"
| "findBreakOuter name (cfg # items) =
     (if scanOwnerReferences name (cfg_OwnerReferences cfg) then Some cfg
      else findBreakOuter name items)"

text \<open>
  \<^verbatim>\<open>talosconfigFromWorkloadCluster\<close>, lines 189 to 196: the assignment is followed by a
  plain \<^verbatim>\<open>break\<close>, which leaves the inner loop only; the loop over \<^verbatim>\<open>cfgs.Items\<close>
  goes on to the end. The last argument is \<^verbatim>\<open>*found\<close> (\<open>None\<close> for \<^verbatim>\<open>nil\<close>). With one
  loop variable for the whole loop, \<^verbatim>\<open>found\<close>, once set, points to that variable, so
  \<^verbatim>\<open>*found\<close> is the current item of every later iteration.
\<close>

fun findBreakInner :: "bool \<Rightarrow> string \<Rightarrow> TalosConfig list \<Rightarrow> TalosConfig option \<Rightarrow> TalosConfig option" where
  "findBreakInner per_iteration name [] found = found"
| "findBreakInner per_iteration name (cfg # items) found =
     findBreakInner per_iteration name items
       (if scanOwnerReferences name (cfg_OwnerReferences cfg) then Some cfg
        else if per_iteration then found
        else map_option (\<lambda>_. cfg) found)"

text \<open>Lines 105 to 135, the block under \<^verbatim>\<open>if t == nil\<close>.\<close>

definition talosConfigOfMachine :: "reconciler \<Rightarrow> Machine \<Rightarrow> talos_Config outcome" where
  "talosConfigOfMachine r machine =
     bind (perform (Call_List (machine_Namespace machine)) StoreError
             (client_List r (machine_Namespace machine)))
      (\<lambda>items.
         case findBreakOuter (machine_Name machine) items of
           None \<Rightarrow> fail (TalosConfigNotFound (machine_Name machine))
         | Some found \<Rightarrow>
             perform (Call_FromString (cfg_Status_TalosConfig found)) TalosConfigError
               (talosconfig_FromString r (cfg_Status_TalosConfig found)))"

text \<open>Lines 177 to 206, the same block of the workload-cluster path.\<close>

definition talosConfigOfMachineWorkload :: "reconciler \<Rightarrow> Machine \<Rightarrow> talos_Config outcome" where
  "talosConfigOfMachineWorkload r machine =
     bind (perform (Call_List (machine_Namespace machine)) StoreError
             (client_List r (machine_Namespace machine)))
      (\<lambda>items.
         case findBreakInner (loopvar_per_iteration r) (machine_Name machine) items None of
           None \<Rightarrow> fail (TalosConfigNotFound (machine_Name machine))
         | Some found \<Rightarrow>
             perform (Call_FromString (cfg_Status_TalosConfig found)) TalosConfigError
               (talosconfig_FromString r (cfg_Status_TalosConfig found)))"

subsection \<open>Addresses from the workload cluster\<close>

definition nodeIPs :: "Node \<Rightarrow> string list" where
  "nodeIPs node =
     map naddr_Address
       (filter (\<lambda>addr. naddr_Type addr = NodeExternalIP \<or> naddr_Type addr = NodeInternalIP)
          (node_Status_Addresses node))"

text \<open>The body of the loop over the machines, lines 157 to 206, on \<open>(addrList, t)\<close>.\<close>

definition workloadBody ::
  "reconciler \<Rightarrow> kubernetesClient \<Rightarrow> Machine \<Rightarrow> string list \<times> talos_Config option \<Rightarrow>
   (string list \<times> talos_Config option) outcome" where
  "workloadBody r clientset machine s =
     (case machine_Status_NodeRef machine of
        None \<Rightarrow> fail (NoNodeRef (machine_Name machine))
      | Some nodeRef \<Rightarrow>
          bind (perform (Call_Nodes_Get (objref_Name nodeRef)) NodeError
                  (nodes_Get r (k_Clientset clientset) (objref_Name nodeRef)))
           (\<lambda>node.
              if length (fst s @ nodeIPs node) = 0 then fail (NoAddressesFound (node_Name node))
              else
                (case snd s of
                   Some t \<Rightarrow> ret (fst s @ nodeIPs node, Some t)
                 | None \<Rightarrow>
                     bind (talosConfigOfMachineWorkload r machine)
                       (\<lambda>t. ret (fst s @ nodeIPs node, Some t)))))"

definition talosconfigFromWorkloadCluster ::
  "reconciler \<Rightarrow> ObjectKey \<Rightarrow> Machine list \<Rightarrow> talos_Client outcome" where
  "talosconfigFromWorkloadCluster r cluster machines =
     (if length machines = 0 then fail AtLeastOneMachine
      else
        bind (kubeconfigForCluster r cluster)
         (\<lambda>clientset.
        bind (rangeLoop (workloadBody r clientset) machines ([], None))
         (\<lambda>s. perform (Call_talosclient_New (fst s)) TalosClientError
                 (talosclient_New r (fst s) (snd s)))))"

subsection \<open>Addresses from the machines\<close>

definition machineIPs :: "Machine \<Rightarrow> string list" where
  "machineIPs machine =
     map maddr_Address
       (filter (\<lambda>addr. maddr_Type addr = MachineExternalIP \<or> maddr_Type addr = MachineInternalIP)
          (machine_Status_Addresses machine))"

text \<open>The body of the loop over the machines, lines 95 to 135.\<close>

definition machinesBody ::
  "reconciler \<Rightarrow> Machine \<Rightarrow> string list \<times> talos_Config option \<Rightarrow>
   (string list \<times> talos_Config option) outcome" where
  "machinesBody r machine s =
     (if length (fst s @ machineIPs machine) = 0 then fail (NoAddressesFound (machine_Name machine))
      else
        (case snd s of
           Some t \<Rightarrow> ret (fst s @ machineIPs machine, Some t)
         | None \<Rightarrow>
             bind (talosConfigOfMachine r machine)
               (\<lambda>t. ret (fst s @ machineIPs machine, Some t))))"

text \<open>Lines 90 to 138: what \<^verbatim>\<open>talosconfigForMachines\<close> does past its two guards.\<close>

definition fromMachines :: "reconciler \<Rightarrow> Machine list \<Rightarrow> talos_Client outcome" where
  "fromMachines r machines =
     bind (rangeLoop (machinesBody r) machines ([], None))
      (\<lambda>s. perform (Call_talosclient_New (fst s)) TalosClientError
              (talosclient_New r (fst s) (snd s)))"

definition talosconfigForMachines ::
  "reconciler \<Rightarrow> TalosControlPlane \<Rightarrow> Machine list \<Rightarrow> talos_Client outcome" where
  "talosconfigForMachines r tcp machines =
     (if length machines = 0 then fail AtLeastOneMachine
      else if \<not> IsZero (tcp_InitConfig tcp) then
        talosconfigFromWorkloadCluster r
          \<lparr>key_Namespace = tcp_Namespace tcp,
           key_Name = label (tcp_Labels tcp) ''cluster.x-k8s.io/cluster-name''\<rparr>
          machines
      else fromMachines r machines)"

subsection \<open>A management cluster to evaluate on\<close>

text \<open>
  Namespace \<open>ns1\<close> holds cluster \<open>demo\<close> with its kubeconfig secret, a secret
  \<open>bare-kubeconfig\<close> with no entry \<open>value\<close>, and two TalosConfigs, both owned by machine
  \<open>m1\<close>. Machine \<open>m2\<close> reports no address and its node \<open>node-2\<close> has none either;
  machine \<open>m3\<close> has not joined.
\<close>

definition cfgA :: TalosConfig where
  "cfgA = \<lparr>cfg_Name = ''cfg-a'',
            cfg_OwnerReferences =
              [\<lparr>ref_Kind = ''Cluster'', ref_Name = ''m1''\<rparr>, \<lparr>ref_Kind = ''Machine'', ref_Name = ''m1''\<rparr>],
            cfg_Status_TalosConfig = ''context: a''\<rparr>"

definition cfgB :: TalosConfig where
  "cfgB = \<lparr>cfg_Name = ''cfg-b'',
            cfg_OwnerReferences = [\<lparr>ref_Kind = ''Machine'', ref_Name = ''m1''\<rparr>],
            cfg_Status_TalosConfig = ''context: b''\<rparr>"

definition m1 :: Machine where
  "m1 = \<lparr>machine_Namespace = ''ns1'', machine_Name = ''m1'',
          machine_Status_Addresses =
            [\<lparr>maddr_Type = ''Hostname'', maddr_Address = ''m1.local''\<rparr>,
             \<lparr>maddr_Type = ''InternalIP'', maddr_Address = ''10.0.0.1''\<rparr>],
          machine_Status_NodeRef = Some \<lparr>objref_Name = ''node-1''\<rparr>\<rparr>"

definition m2 :: Machine where
  "m2 = \<lparr>machine_Namespace = ''ns1'', machine_Name = ''m2'',
          machine_Status_Addresses = [],
          machine_Status_NodeRef = Some \<lparr>objref_Name = ''node-2''\<rparr>\<rparr>"

definition m3 :: Machine where
  "m3 = \<lparr>machine_Namespace = ''ns1'', machine_Name = ''m3'',
          machine_Status_Addresses =
            [\<lparr>maddr_Type = ''ExternalIP'', maddr_Address = ''192.0.2.3''\<rparr>,
             \<lparr>maddr_Type = ''InternalIP'', maddr_Address = ''10.0.0.3''\<rparr>],
          machine_Status_NodeRef = None\<rparr>"

definition node1 :: Node where
  "node1 = \<lparr>node_Name = ''node-1'',
             node_Status_Addresses =
               [\<lparr>naddr_Type = ''InternalIP'', naddr_Address = ''10.0.0.1''\<rparr>]\<rparr>"

definition node2 :: Node where
  "node2 = \<lparr>node_Name = ''node-2'', node_Status_Addresses = []\<rparr>"

definition demoSecret :: Secret where
  "demoSecret = \<lparr>secret_Data = [''value'' \<mapsto> [97, 112, 105]]\<rparr>"

definition bareSecret :: Secret where
  "bareSecret = \<lparr>secret_Data = Map.empty\<rparr>"

definition demoConfig :: rest_Config where
  "demoConfig = \<lparr>rest_Host = ''https://demo:6443'', rest_Dial = None\<rparr>"

definition mgmt :: reconciler where
  "mgmt =
     \<lparr>client_Get = (\<lambda>ns name.
        if ns = ''ns1'' \<and> name = ''demo-kubeconfig'' then Inr demoSecret
        else if ns = ''ns1'' \<and> name = ''bare-kubeconfig'' then Inr bareSecret
        else Inl ''not found''),
      client_List = (\<lambda>ns. if ns = ''ns1'' then Inr [cfgA, cfgB] else Inr []),
      RESTConfigFromKubeConfig = (\<lambda>bs. if bs = [] then Inl ''invalid configuration'' else Inr demoConfig),
      NewForConfig = (\<lambda>config. Inr (ClientsetFor config)),
      nodes_Get = (\<lambda>clientset name.
        if name = ''node-1'' then Inr node1
        else if name = ''node-2'' then Inr node2
        else Inl ''not found''),
      talosconfig_FromString = (\<lambda>s. Inr \<lparr>talos_Context = s\<rparr>),
      talosclient_New = (\<lambda>endpoints t. Inr \<lparr>client_endpoints = endpoints, client_config = t\<rparr>),
      loopvar_per_iteration = False\<rparr>"

definition demo :: ObjectKey where
  "demo = \<lparr>key_Namespace = ''ns1'', key_Name = ''demo''\<rparr>"

definition zeroInit :: TalosConfigSpec where
  "zeroInit = \<lparr>spec_TalosVersion = [], spec_GenerateType = [], spec_Data = [],
                spec_ConfigPatches = None\<rparr>"

definition tcpJoin :: TalosControlPlane where
  "tcpJoin = \<lparr>tcp_Namespace = ''ns1'',
               tcp_Labels = [''cluster.x-k8s.io/cluster-name'' \<mapsto> ''demo''],
               tcp_InitConfig = zeroInit\<rparr>"

definition tcpInit :: TalosControlPlane where
  "tcpInit = tcpJoin\<lparr>tcp_InitConfig := zeroInit\<lparr>spec_GenerateType := ''init''\<rparr>\<rparr>"

section \<open>Properties\<close>

subsection \<open>Sequencing and loops\<close>

lemma bind_Inl [simp]: "bind (Inl e, tr) f = (Inl e, tr)"
  by (simp add: bind_def)

lemma bind_Inr: "bind (Inr x, tr) f = (fst (f x), tr @ snd (f x))"
  by (simp add: bind_def split: prod.split)

lemma bind_ret [simp]: "bind (ret x) f = f x"
  by (simp add: bind_def ret_def split: prod.split)

lemma bind_fail [simp]: "bind (fail e) f = fail e"
  by (simp add: bind_def fail_def)

lemma bind_assoc: "bind (bind m f) g = bind m (\<lambda>x. bind (f x) g)"
  by (cases m) (auto simp: bind_def split: sum.splits prod.splits)

lemma fst_bind:
  "fst (bind m f) = (case fst m of Inl e \<Rightarrow> Inl e | Inr x \<Rightarrow> fst (f x))"
  by (cases m) (auto simp: bind_def split: sum.splits prod.splits)

lemma snd_bind:
  "snd (bind m f) = (case fst m of Inl e \<Rightarrow> snd m | Inr x \<Rightarrow> snd m @ snd (f x))"
  by (cases m) (auto simp: bind_def split: sum.splits prod.splits)

lemma perform_Inl [simp]: "perform c origin (Inl e) = (Inl (origin e), [c])"
  by (simp add: perform_def)

lemma perform_Inr [simp]: "perform c origin (Inr x) = (Inr x, [c])"
  by (simp add: perform_def)

lemma snd_perform [simp]: "snd (perform c origin res) = [c]"
  by (simp add: perform_def split: sum.split)

lemma snd_ret [simp]: "snd (ret x) = []"
  by (simp add: ret_def)

lemma snd_fail [simp]: "snd (fail e) = []"
  by (simp add: fail_def)

lemma fst_ret [simp]: "fst (ret x) = Inr x"
  by (simp add: ret_def)

lemma fst_fail [simp]: "fst (fail e) = Inl e"
  by (simp add: fail_def)

text \<open>A call made by a sequence is made by its first part or by what follows it.\<close>

lemma call_of_bind:
  assumes "c \<in> set (snd (bind m f))"
  shows "c \<in> set (snd m) \<or> (\<exists>x. fst m = Inr x \<and> c \<in> set (snd (f x)))"
  using assms by (auto simp: snd_bind split: sum.splits)

lemma rangeLoop_append:
  "rangeLoop body (xs @ ys) s = bind (rangeLoop body xs s) (rangeLoop body ys)"
proof (induction xs arbitrary: s)
  case Nil
  show ?case by simp
next
  case (Cons x xs)
  have "rangeLoop body (xs @ ys) = (\<lambda>s. bind (rangeLoop body xs s) (rangeLoop body ys))"
    by (rule ext) (rule Cons.IH)
  then show ?case by (simp add: bind_assoc)
qed

text \<open>A call made by a loop is made by its body, on some element and some state.\<close>

lemma call_of_rangeLoop:
  assumes "c \<in> set (snd (rangeLoop body xs s))"
  shows "\<exists>x s'. x \<in> set xs \<and> c \<in> set (snd (body x s'))"
  using assms
proof (induction xs arbitrary: s)
  case Nil
  then show ?case by simp
next
  case (Cons x xs)
  from Cons.prems have "c \<in> set (snd (bind (body x s) (rangeLoop body xs)))" by simp
  then consider "c \<in> set (snd (body x s))"
    | s' where "c \<in> set (snd (rangeLoop body xs s'))"
    using call_of_bind by blast
  then show ?case
  proof cases
    case 1
    then show ?thesis by auto
  next
    case 2
    from Cons.IH [OF 2] show ?thesis by auto
  qed
qed

subsection \<open>The two scans\<close>

lemma scanOwnerReferences_iff:
  "scanOwnerReferences name refs \<longleftrightarrow>
     (\<exists>ref \<in> set refs. ref_Kind ref = ''Machine'' \<and> ref_Name ref = name)"
  by (induction refs) auto

text \<open>\<^verbatim>\<open>break outer\<close>: the first item with a matching owner reference, if there is one.\<close>

lemma findBreakOuter_find:
  "findBreakOuter name items =
     find (\<lambda>cfg. scanOwnerReferences name (cfg_OwnerReferences cfg)) items"
  by (induction items) auto

lemma findBreakOuter_None:
  "findBreakOuter name items = None \<longleftrightarrow>
     (\<forall>cfg \<in> set items. \<not> scanOwnerReferences name (cfg_OwnerReferences cfg))"
  by (induction items) auto

lemma findBreakOuter_first:
  assumes "findBreakOuter name items = Some found"
  shows "\<exists>before after. items = before @ found # after \<and>
           scanOwnerReferences name (cfg_OwnerReferences found) \<and>
           (\<forall>cfg \<in> set before. \<not> scanOwnerReferences name (cfg_OwnerReferences cfg))"
  using assms
proof (induction items)
  case Nil
  then show ?case by simp
next
  case (Cons cfg items)
  show ?case
  proof (cases "scanOwnerReferences name (cfg_OwnerReferences cfg)")
    case True
    with Cons.prems have "found = cfg" by simp
    with True have "cfg # items = [] @ found # items \<and>
        scanOwnerReferences name (cfg_OwnerReferences found) \<and>
        (\<forall>c \<in> set []. \<not> scanOwnerReferences name (cfg_OwnerReferences c))"
      by simp
    then show ?thesis by blast
  next
    case False
    with Cons.prems have "findBreakOuter name items = Some found" by simp
    from Cons.IH [OF this] obtain before after where
      *: "items = before @ found # after"
         "scanOwnerReferences name (cfg_OwnerReferences found)"
         "\<forall>c \<in> set before. \<not> scanOwnerReferences name (cfg_OwnerReferences c)"
      by blast
    with False have "cfg # items = (cfg # before) @ found # after \<and>
        scanOwnerReferences name (cfg_OwnerReferences found) \<and>
        (\<forall>c \<in> set (cfg # before). \<not> scanOwnerReferences name (cfg_OwnerReferences c))"
      by simp
    then show ?thesis by blast
  qed
qed

lemma find_app:
  "find P (xs @ ys) = (case find P xs of None \<Rightarrow> find P ys | Some x \<Rightarrow> Some x)"
  by (induction xs) auto

text \<open>
  Plain \<^verbatim>\<open>break\<close>, a variable for each iteration: the last item with a matching owner
  reference.
\<close>

lemma findBreakInner_per_iteration:
  "findBreakInner True name items found =
     (case find (\<lambda>cfg. scanOwnerReferences name (cfg_OwnerReferences cfg)) (rev items) of
        None \<Rightarrow> found | Some cfg \<Rightarrow> Some cfg)"
  by (induction items arbitrary: found) (auto simp: find_app split: option.splits)

text \<open>
  Plain \<^verbatim>\<open>break\<close>, one variable for the loop: the last item of the list, whatever its
  owner references, once any item has matched.
\<close>

lemma findBreakInner_shared:
  "findBreakInner False name items found =
     (if items = [] then found
      else if found \<noteq> None \<or>
              (\<exists>cfg \<in> set items. scanOwnerReferences name (cfg_OwnerReferences cfg))
      then Some (last items) else None)"
  by (induction items arbitrary: found) (auto split: option.splits)

text \<open>Both scans find nothing exactly when no item has a matching owner reference.\<close>

lemma findBreakInner_None_iff:
  "findBreakInner b name items found = None \<longleftrightarrow>
     found = None \<and> findBreakOuter name items = None"
  by (induction items arbitrary: found) auto

subsection \<open>The workload-cluster client\<close>

lemma kubeconfigForCluster_unfold:
  "kubeconfigForCluster r cluster =
     (case client_Get r (key_Namespace cluster) (key_Name cluster @ ''-kubeconfig'') of
        Inl e \<Rightarrow>
          (Inl (StoreError e),
           [Call_Get (key_Namespace cluster) (key_Name cluster @ ''-kubeconfig'')])
      | Inr secret \<Rightarrow>
          (case RESTConfigFromKubeConfig r (data (secret_Data secret) ''value'') of
             Inl e \<Rightarrow>
               (Inl (KubeconfigError e),
                [Call_Get (key_Namespace cluster) (key_Name cluster @ ''-kubeconfig''),
                 Call_RESTConfigFromKubeConfig (data (secret_Data secret) ''value'')])
           | Inr config \<Rightarrow>
               (case NewForConfig r
                       (config\<lparr>rest_Dial :=
                          Some (NewDialer \<lparr>Timeout = 30 * Second, KeepAlive = 30 * Second\<rparr>)\<rparr>) of
                  Inl e \<Rightarrow> Inl (ClientsetError e)
                | Inr clientset \<Rightarrow>
                    Inr \<lparr>k_Clientset = clientset,
                         k_dialer = NewDialer \<lparr>Timeout = 30 * Second, KeepAlive = 30 * Second\<rparr>\<rparr>,
                [Call_Get (key_Namespace cluster) (key_Name cluster @ ''-kubeconfig''),
                 Call_RESTConfigFromKubeConfig (data (secret_Data secret) ''value''),
                 Call_NewDialer,
                 Call_NewForConfig
                   (config\<lparr>rest_Dial :=
                      Some (NewDialer \<lparr>Timeout = 30 * Second, KeepAlive = 30 * Second\<rparr>)\<rparr>)])))"
  by (simp add: kubeconfigForCluster_def newDialer_def bind_def ret_def split: sum.splits)

lemma kubeconfigForCluster_no_CloseAll:
  "Call_CloseAll d \<notin> set (snd (kubeconfigForCluster r cluster))"
  by (simp add: kubeconfigForCluster_unfold split: sum.splits)

lemma kubeconfigForCluster_Get:
  "Call_Get ns name \<in> set (snd (kubeconfigForCluster r cluster)) \<longleftrightarrow>
     ns = key_Namespace cluster \<and> name = key_Name cluster @ ''-kubeconfig''"
  by (auto simp: kubeconfigForCluster_unfold split: sum.splits)

subsection \<open>Calls of the two paths\<close>

lemma talosConfigOfMachine_calls:
  assumes "c \<in> set (snd (talosConfigOfMachine r machine))"
  shows "(\<exists>ns. c = Call_List ns) \<or> (\<exists>s. c = Call_FromString s)"
  using assms
  by (auto simp: talosConfigOfMachine_def snd_bind split: sum.splits option.splits)

lemma talosConfigOfMachineWorkload_calls:
  assumes "c \<in> set (snd (talosConfigOfMachineWorkload r machine))"
  shows "(\<exists>ns. c = Call_List ns) \<or> (\<exists>s. c = Call_FromString s)"
  using assms
  by (auto simp: talosConfigOfMachineWorkload_def snd_bind split: sum.splits option.splits)

lemma machinesBody_calls:
  assumes "c \<in> set (snd (machinesBody r machine s))"
  shows "(\<exists>ns. c = Call_List ns) \<or> (\<exists>s. c = Call_FromString s)"
proof -
  from assms have "c \<in> set (snd (talosConfigOfMachine r machine))"
    by (auto simp: machinesBody_def snd_bind split: if_splits option.splits sum.splits)
  then show ?thesis by (rule talosConfigOfMachine_calls)
qed

lemma workloadBody_calls:
  assumes "c \<in> set (snd (workloadBody r k machine s))"
  shows "(\<exists>ns. c = Call_List ns) \<or> (\<exists>s. c = Call_FromString s) \<or> (\<exists>n. c = Call_Nodes_Get n)"
proof (cases "machine_Status_NodeRef machine")
  case None
  with assms show ?thesis by (simp add: workloadBody_def)
next
  case (Some nodeRef)
  with assms have "c = Call_Nodes_Get (objref_Name nodeRef) \<or>
      c \<in> set (snd (talosConfigOfMachineWorkload r machine))"
    by (auto simp: workloadBody_def snd_bind split: if_splits option.splits sum.splits)
  then show ?thesis using talosConfigOfMachineWorkload_calls by blast
qed

lemma fromMachines_calls:
  assumes "c \<in> set (snd (fromMachines r machines))"
  shows "(\<exists>ns. c = Call_List ns) \<or> (\<exists>s. c = Call_FromString s) \<or>
         (\<exists>endpoints. c = Call_talosclient_New endpoints)"
proof -
  from assms have "c \<in> set (snd (bind (rangeLoop (machinesBody r) machines ([], None))
      (\<lambda>s. perform (Call_talosclient_New (fst s)) TalosClientError
              (talosclient_New r (fst s) (snd s)))))"
    by (simp add: fromMachines_def)
  from call_of_bind [OF this]
  consider "c \<in> set (snd (rangeLoop (machinesBody r) machines ([], None)))"
    | endpoints where "c = Call_talosclient_New endpoints"
    by auto
  then show ?thesis
  proof cases
    case 1
    from call_of_rangeLoop [OF 1] obtain m s where "c \<in> set (snd (machinesBody r m s))"
      by auto
    from machinesBody_calls [OF this] show ?thesis by auto
  next
    case 2
    then show ?thesis by simp
  qed
qed

text \<open>No path of \<^verbatim>\<open>talosconfigFromWorkloadCluster\<close> closes a dialer.\<close>

lemma talosconfigFromWorkloadCluster_no_CloseAll:
  "Call_CloseAll d \<notin> set (snd (talosconfigFromWorkloadCluster r cluster machines))"
proof
  assume a: "Call_CloseAll d \<in> set (snd (talosconfigFromWorkloadCluster r cluster machines))"
  then have ne: "length machines \<noteq> 0"
    by (auto simp: talosconfigFromWorkloadCluster_def)
  with a have "Call_CloseAll d \<in> set (snd (bind (kubeconfigForCluster r cluster)
      (\<lambda>clientset. bind (rangeLoop (workloadBody r clientset) machines ([], None))
         (\<lambda>s. perform (Call_talosclient_New (fst s)) TalosClientError
                 (talosclient_New r (fst s) (snd s))))))"
    by (simp add: talosconfigFromWorkloadCluster_def)
  from call_of_bind [OF this] have "\<exists>k. Call_CloseAll d \<in>
      set (snd (bind (rangeLoop (workloadBody r k) machines ([], None))
         (\<lambda>s. perform (Call_talosclient_New (fst s)) TalosClientError
                 (talosclient_New r (fst s) (snd s)))))"
    using kubeconfigForCluster_no_CloseAll by auto
  then obtain k where "Call_CloseAll d \<in>
      set (snd (bind (rangeLoop (workloadBody r k) machines ([], None))
         (\<lambda>s. perform (Call_talosclient_New (fst s)) TalosClientError
                 (talosclient_New r (fst s) (snd s)))))" ..
  from call_of_bind [OF this]
  have "Call_CloseAll d \<in> set (snd (rangeLoop (workloadBody r k) machines ([], None)))"
    by auto
  from call_of_rangeLoop [OF this] obtain m s where
    "Call_CloseAll d \<in> set (snd (workloadBody r k m s))"
    by auto
  from workloadBody_calls [OF this] show False by auto
qed

subsection \<open>The loop over the machines\<close>

text \<open>
  Once an address and the TalosConfig are there, the loop of \<^verbatim>\<open>talosconfigForMachines\<close>
  only collects addresses: it makes no call and cannot fail.
\<close>

lemma machines_loop_resolved:
  assumes "addrList \<noteq> []"
  shows "rangeLoop (machinesBody r) machines (addrList, Some t) =
           ret (addrList @ concat (map machineIPs machines), Some t)"
  using assms
proof (induction machines arbitrary: addrList)
  case Nil
  show ?case by simp
next
  case (Cons machine machines)
  from Cons.prems have step:
    "machinesBody r machine (addrList, Some t) = ret (addrList @ machineIPs machine, Some t)"
    by (simp add: machinesBody_def)
  from Cons.prems have "addrList @ machineIPs machine \<noteq> []" by simp
  from Cons.IH [OF this] step show ?case by simp
qed

lemma machines_loop_first:
  assumes "machineIPs machine \<noteq> []"
  shows "rangeLoop (machinesBody r) (machine # rest) ([], None) =
           bind (talosConfigOfMachine r machine)
             (\<lambda>t. ret (machineIPs machine @ concat (map machineIPs rest), Some t))"
proof -
  have "rangeLoop (machinesBody r) (machine # rest) ([], None) =
          bind (talosConfigOfMachine r machine)
            (\<lambda>t. rangeLoop (machinesBody r) rest (machineIPs machine, Some t))"
    using assms by (simp add: machinesBody_def bind_assoc)
  also have "(\<lambda>t. rangeLoop (machinesBody r) rest (machineIPs machine, Some t)) =
          (\<lambda>t. ret (machineIPs machine @ concat (map machineIPs rest), Some t))"
    using assms by (simp add: machines_loop_resolved)
  finally show ?thesis .
qed

lemma talosConfigOfMachine_errors:
  "fst (talosConfigOfMachine r machine) \<noteq> Inl (NoAddressesFound name)"
  by (auto simp: talosConfigOfMachine_def fst_bind perform_def split: sum.splits option.splits)

subsection \<open>Evaluation\<close>

lemmas demo_defs =
  mgmt_def demo_def tcpJoin_def tcpInit_def zeroInit_def m1_def m2_def m3_def node1_def node2_def
  cfgA_def cfgB_def demoSecret_def bareSecret_def demoConfig_def

lemmas code_defs =
  talosconfigForMachines_def fromMachines_def talosconfigFromWorkloadCluster_def
  machinesBody_def workloadBody_def talosConfigOfMachine_def talosConfigOfMachineWorkload_def
  machineIPs_def nodeIPs_def kubeconfigForCluster_unfold IsZero_def label_def data_def
  MachineExternalIP_def MachineInternalIP_def NodeExternalIP_def NodeInternalIP_def
  bind_def ret_def fail_def Close_def

section \<open>The claims\<close>

text \<open>
  Claim C1. The claim says that the lookup of a machine's TalosConfig returns the first
  record with an owner reference of kind \<open>Machine\<close> and the machine's name, and stops
  there, in both paths. \<^verbatim>\<open>talosconfigForMachines\<close> does (\<open>findBreakOuter_find\<close>,
  \<open>findBreakOuter_first\<close>). \<^verbatim>\<open>talosconfigFromWorkloadCluster\<close> does not: with the two
  records \<open>cfgA\<close> and \<open>cfgB\<close> of namespace \<open>ns1\<close>, both owned by machine \<open>m1\<close>, in
  that order, it builds the client from \<open>cfgB\<close>, with either kind of loop variable, where
  the other path builds it from \<open>cfgA\<close>.
\<close>

theorem workload_scan_keeps_last_match:
  "findBreakOuter ''m1'' [cfgA, cfgB] = Some cfgA \<and>
   findBreakInner False ''m1'' [cfgA, cfgB] None = Some cfgB \<and>
   findBreakInner True ''m1'' [cfgA, cfgB] None = Some cfgB \<and>
   cfg_Status_TalosConfig cfgA \<noteq> cfg_Status_TalosConfig cfgB \<and>
   fst (talosconfigForMachines mgmt tcpJoin [m1]) =
     Inr \<lparr>client_endpoints = [''10.0.0.1''],
          client_config = Some \<lparr>talos_Context = cfg_Status_TalosConfig cfgA\<rparr>\<rparr> \<and>
   fst (talosconfigForMachines mgmt tcpInit [m1]) =
     Inr \<lparr>client_endpoints = [''10.0.0.1''],
          client_config = Some \<lparr>talos_Context = cfg_Status_TalosConfig cfgB\<rparr>\<rparr> \<and>
   fst (talosconfigForMachines (mgmt\<lparr>loopvar_per_iteration := True\<rparr>) tcpInit [m1]) =
     Inr \<lparr>client_endpoints = [''10.0.0.1''],
          client_config = Some \<lparr>talos_Context = cfg_Status_TalosConfig cfgB\<rparr>\<rparr>"
  by (simp add: demo_defs code_defs)

text \<open>
  Claim C4. The claim says that \<^verbatim>\<open>talosconfigFromWorkloadCluster\<close> calls \<^verbatim>\<open>Close\<close> on the
  client of \<^verbatim>\<open>kubeconfigForCluster\<close> before it returns, on the paths that fail and on the
  path that succeeds. It does not: for cluster \<open>demo\<close> the client is built, \<^verbatim>\<open>Close\<close> of
  that client would call \<^verbatim>\<open>CloseAll\<close> on its dialer, and the calls made for the machine
  \<open>m3\<close>, which has no node reference, and for the machine \<open>m1\<close>, for which the client is
  returned, hold no \<^verbatim>\<open>CloseAll\<close>. The lemma \<open>talosconfigFromWorkloadCluster_no_CloseAll\<close>
  is the same for every input.
\<close>

theorem workload_client_never_closed:
  "fst (kubeconfigForCluster mgmt demo) =
     Inr \<lparr>k_Clientset =
            ClientsetFor (demoConfig\<lparr>rest_Dial :=
              Some (NewDialer \<lparr>Timeout = 30 * Second, KeepAlive = 30 * Second\<rparr>)\<rparr>),
          k_dialer = NewDialer \<lparr>Timeout = 30 * Second, KeepAlive = 30 * Second\<rparr>\<rparr> \<and>
   snd (Close \<lparr>k_Clientset =
            ClientsetFor (demoConfig\<lparr>rest_Dial :=
              Some (NewDialer \<lparr>Timeout = 30 * Second, KeepAlive = 30 * Second\<rparr>)\<rparr>),
          k_dialer = NewDialer \<lparr>Timeout = 30 * Second, KeepAlive = 30 * Second\<rparr>\<rparr>) =
     [Call_CloseAll (NewDialer \<lparr>Timeout = 30 * Second, KeepAlive = 30 * Second\<rparr>)] \<and>
   talosconfigFromWorkloadCluster mgmt demo [m3] =
     (Inl (NoNodeRef ''m3''),
      [Call_Get ''ns1'' ''demo-kubeconfig'',
       Call_RESTConfigFromKubeConfig [97, 112, 105],
       Call_NewDialer,
       Call_NewForConfig (demoConfig\<lparr>rest_Dial :=
         Some (NewDialer \<lparr>Timeout = 30 * Second, KeepAlive = 30 * Second\<rparr>)\<rparr>)]) \<and>
   talosconfigFromWorkloadCluster mgmt demo [m1] =
     (Inr \<lparr>client_endpoints = [''10.0.0.1''],
           client_config = Some \<lparr>talos_Context = ''context: b''\<rparr>\<rparr>,
      [Call_Get ''ns1'' ''demo-kubeconfig'',
       Call_RESTConfigFromKubeConfig [97, 112, 105],
       Call_NewDialer,
       Call_NewForConfig (demoConfig\<lparr>rest_Dial :=
         Some (NewDialer \<lparr>Timeout = 30 * Second, KeepAlive = 30 * Second\<rparr>)\<rparr>),
       Call_Nodes_Get ''node-1'',
       Call_List ''ns1'',
       Call_FromString ''context: b'',
       Call_talosclient_New [''10.0.0.1'']])"
  by (simp add: demo_defs code_defs)

text \<open>
  Claim C7. \<^verbatim>\<open>kubeconfigForCluster\<close> first reads the secret named by the cluster's name
  followed by \<open>-kubeconfig\<close>, in the cluster's namespace, and reads no other secret; when
  that read fails, its error is the result and nothing else is called: no parse, no dialer,
  no clientset.
\<close>

theorem kubeconfig_secret_lookup:
  "(\<exists>later. snd (kubeconfigForCluster r cluster) =
       Call_Get (key_Namespace cluster) (key_Name cluster @ ''-kubeconfig'') # later \<and>
       (\<forall>ns name. Call_Get ns name \<notin> set later)) \<and>
   (\<forall>e. client_Get r (key_Namespace cluster) (key_Name cluster @ ''-kubeconfig'') = Inl e \<longrightarrow>
      kubeconfigForCluster r cluster =
        (Inl (StoreError e),
         [Call_Get (key_Namespace cluster) (key_Name cluster @ ''-kubeconfig'')]))"
  by (simp add: kubeconfigForCluster_unfold split: sum.splits)

theorem kubeconfig_secret_lookup_witness:
  "client_Get mgmt ''ns1'' ''none-kubeconfig'' = Inl ''not found'' \<and>
   kubeconfigForCluster mgmt \<lparr>key_Namespace = ''ns1'', key_Name = ''none''\<rparr> =
     (Inl (StoreError ''not found''), [Call_Get ''ns1'' ''none-kubeconfig''])"
proof -
  have h: "client_Get mgmt ''ns1'' ''none-kubeconfig'' = Inl ''not found''"
    by (simp add: mgmt_def)
  from kubeconfig_secret_lookup [of mgmt "\<lparr>key_Namespace = ''ns1'', key_Name = ''none''\<rparr>"] h
  show ?thesis by simp
qed

text \<open>
  Claim C8. Whenever \<^verbatim>\<open>kubeconfigForCluster\<close> returns a client, the client's dialer is the
  one of \<^verbatim>\<open>newDialer\<close>, whose timeout and keep-alive are both 30 seconds (30 times
  1000000000 nanoseconds, with no overflow of the 64 bits), and the clientset was built
  from a configuration whose \<^verbatim>\<open>Dial\<close> is that dialer. Neither function has a parameter
  for these values.
\<close>

theorem dialer_fixed_at_30_seconds:
  assumes "fst (kubeconfigForCluster r cluster) = Inr k"
  shows "k_dialer k = NewDialer \<lparr>Timeout = 30 * Second, KeepAlive = 30 * Second\<rparr> \<and>
         sint (30 * Second) = 30 * 1000000000 \<and>
         (\<exists>config. Call_NewForConfig config \<in> set (snd (kubeconfigForCluster r cluster)) \<and>
            rest_Dial config = Some (k_dialer k) \<and>
            NewForConfig r config = Inr (k_Clientset k))"
  using assms
  by (auto simp: kubeconfigForCluster_unfold Second_def split: sum.splits)

theorem dialer_fixed_at_30_seconds_witness:
  "k_dialer \<lparr>k_Clientset = ClientsetFor (demoConfig\<lparr>rest_Dial :=
       Some (NewDialer \<lparr>Timeout = 30 * Second, KeepAlive = 30 * Second\<rparr>)\<rparr>),
     k_dialer = NewDialer \<lparr>Timeout = 30 * Second, KeepAlive = 30 * Second\<rparr>\<rparr> =
     NewDialer \<lparr>Timeout = 30000000000, KeepAlive = 30000000000\<rparr> \<and>
   fst (kubeconfigForCluster mgmt demo) =
     Inr \<lparr>k_Clientset = ClientsetFor (demoConfig\<lparr>rest_Dial :=
            Some (NewDialer \<lparr>Timeout = 30 * Second, KeepAlive = 30 * Second\<rparr>)\<rparr>),
          k_dialer = NewDialer \<lparr>Timeout = 30 * Second, KeepAlive = 30 * Second\<rparr>\<rparr>"
proof -
  have h: "fst (kubeconfigForCluster mgmt demo) =
     Inr \<lparr>k_Clientset = ClientsetFor (demoConfig\<lparr>rest_Dial :=
            Some (NewDialer \<lparr>Timeout = 30 * Second, KeepAlive = 30 * Second\<rparr>)\<rparr>),
          k_dialer = NewDialer \<lparr>Timeout = 30 * Second, KeepAlive = 30 * Second\<rparr>\<rparr>"
    by (simp add: kubeconfigForCluster_unfold mgmt_def demo_def demoSecret_def data_def
        demoConfig_def)
  from dialer_fixed_at_30_seconds [OF h] h show ?thesis
    by (simp add: Second_def)
qed

text \<open>
  Claim C10. The kubeconfig is parsed from the entry \<open>value\<close> of the secret's data,
  the empty bytes when the secret has no such entry. When the secret is read and the parser
  rejects those bytes, the result is the parser's error, not an error of the store, after
  the two calls.
\<close>

theorem kubeconfig_parsed_from_value_entry:
  assumes "client_Get r (key_Namespace cluster) (key_Name cluster @ ''-kubeconfig'') = Inr secret"
    and "RESTConfigFromKubeConfig r
           (case secret_Data secret ''value'' of None \<Rightarrow> [] | Some v \<Rightarrow> v) = Inl e"
  shows "kubeconfigForCluster r cluster =
           (Inl (KubeconfigError e),
            [Call_Get (key_Namespace cluster) (key_Name cluster @ ''-kubeconfig''),
             Call_RESTConfigFromKubeConfig
               (case secret_Data secret ''value'' of None \<Rightarrow> [] | Some v \<Rightarrow> v)])"
  using assms by (simp add: kubeconfigForCluster_unfold data_def)

theorem kubeconfig_parsed_from_value_entry_witness:
  "client_Get mgmt ''ns1'' ''bare-kubeconfig'' = Inr bareSecret \<and>
   secret_Data bareSecret ''value'' = None \<and>
   RESTConfigFromKubeConfig mgmt [] = Inl ''invalid configuration'' \<and>
   kubeconfigForCluster mgmt \<lparr>key_Namespace = ''ns1'', key_Name = ''bare''\<rparr> =
     (Inl (KubeconfigError ''invalid configuration''),
      [Call_Get ''ns1'' ''bare-kubeconfig'', Call_RESTConfigFromKubeConfig []])"
proof -
  have h1: "client_Get mgmt (key_Namespace \<lparr>key_Namespace = ''ns1'', key_Name = ''bare''\<rparr>)
      (key_Name \<lparr>key_Namespace = ''ns1'', key_Name = ''bare''\<rparr> @ ''-kubeconfig'') = Inr bareSecret"
    by (simp add: mgmt_def)
  have h2: "secret_Data bareSecret ''value'' = None"
    by (simp add: bareSecret_def)
  have h3: "RESTConfigFromKubeConfig mgmt
      (case secret_Data bareSecret ''value'' of None \<Rightarrow> [] | Some v \<Rightarrow> v) =
      Inl ''invalid configuration''"
    by (simp add: mgmt_def bareSecret_def)
  from kubeconfig_parsed_from_value_entry [OF h1 h3] h1 h2 h3 show ?thesis by simp
qed

text \<open>
  Claim C6. \<^verbatim>\<open>talosconfigForMachines\<close> is \<^verbatim>\<open>talosconfigFromWorkloadCluster\<close>, on the key
  made of the control plane's namespace and cluster-name label, when the init config is not
  the zero value, and the loop over the machines' own addresses when it is (an empty list of
  machines is refused before, with the same error on both sides). For a list that is not
  empty, the kubeconfig secret is read exactly when the init config is not the zero value.
\<close>

theorem mode_selected_by_init_config:
  "talosconfigForMachines r tcp machines =
     (if IsZero (tcp_InitConfig tcp) then
        (if length machines = 0 then fail AtLeastOneMachine else fromMachines r machines)
      else
        talosconfigFromWorkloadCluster r
          \<lparr>key_Namespace = tcp_Namespace tcp,
           key_Name = label (tcp_Labels tcp) ''cluster.x-k8s.io/cluster-name''\<rparr> machines) \<and>
   (machines \<noteq> [] \<longrightarrow>
      (\<exists>ns name. Call_Get ns name \<in> set (snd (talosconfigForMachines r tcp machines))) =
      (\<not> IsZero (tcp_InitConfig tcp)))"
proof (intro conjI impI)
  show "talosconfigForMachines r tcp machines =
     (if IsZero (tcp_InitConfig tcp) then
        (if length machines = 0 then fail AtLeastOneMachine else fromMachines r machines)
      else
        talosconfigFromWorkloadCluster r
          \<lparr>key_Namespace = tcp_Namespace tcp,
           key_Name = label (tcp_Labels tcp) ''cluster.x-k8s.io/cluster-name''\<rparr> machines)"
    by (simp add: talosconfigForMachines_def talosconfigFromWorkloadCluster_def)
next
  assume ne: "machines \<noteq> []"
  show "(\<exists>ns name. Call_Get ns name \<in> set (snd (talosconfigForMachines r tcp machines))) =
      (\<not> IsZero (tcp_InitConfig tcp))"
  proof (cases "IsZero (tcp_InitConfig tcp)")
    case True
    with ne have "talosconfigForMachines r tcp machines = fromMachines r machines"
      by (simp add: talosconfigForMachines_def)
    moreover have "Call_Get ns name \<notin> set (snd (fromMachines r machines))" for ns name
      using fromMachines_calls [of "Call_Get ns name" r machines] by auto
    ultimately show ?thesis using True by simp
  next
    case False
    let ?key = "\<lparr>key_Namespace = tcp_Namespace tcp,
           key_Name = label (tcp_Labels tcp) ''cluster.x-k8s.io/cluster-name''\<rparr>"
    from ne False have eq: "talosconfigForMachines r tcp machines =
        bind (kubeconfigForCluster r ?key)
         (\<lambda>clientset.
        bind (rangeLoop (workloadBody r clientset) machines ([], None))
         (\<lambda>s. perform (Call_talosclient_New (fst s)) TalosClientError
                 (talosclient_New r (fst s) (snd s))))"
      by (simp add: talosconfigForMachines_def talosconfigFromWorkloadCluster_def)
    have "Call_Get (key_Namespace ?key) (key_Name ?key @ ''-kubeconfig'')
        \<in> set (snd (kubeconfigForCluster r ?key))"
      by (simp only: kubeconfigForCluster_Get)
    then have "Call_Get (key_Namespace ?key) (key_Name ?key @ ''-kubeconfig'')
        \<in> set (snd (talosconfigForMachines r tcp machines))"
      unfolding eq by (auto simp: snd_bind split: sum.splits)
    then show ?thesis using False by blast
  qed
qed

theorem mode_selected_by_init_config_witness:
  "[m1] \<noteq> [] \<and> IsZero (tcp_InitConfig tcpJoin) \<and> \<not> IsZero (tcp_InitConfig tcpInit) \<and>
   talosconfigForMachines mgmt tcpJoin [m1] = fromMachines mgmt [m1] \<and>
   talosconfigForMachines mgmt tcpInit [m1] = talosconfigFromWorkloadCluster mgmt demo [m1] \<and>
   (\<forall>ns name. Call_Get ns name \<notin> set (snd (talosconfigForMachines mgmt tcpJoin [m1]))) \<and>
   (\<exists>ns name. Call_Get ns name \<in> set (snd (talosconfigForMachines mgmt tcpInit [m1])))"
proof -
  have z: "IsZero (tcp_InitConfig tcpJoin)" "\<not> IsZero (tcp_InitConfig tcpInit)"
    by (simp_all add: tcpInit_def tcpJoin_def zeroInit_def IsZero_def)
  have k: "\<lparr>key_Namespace = tcp_Namespace tcpInit,
      key_Name = label (tcp_Labels tcpInit) ''cluster.x-k8s.io/cluster-name''\<rparr> = demo"
    by (simp add: tcpInit_def tcpJoin_def label_def demo_def)
  note j = mode_selected_by_init_config [of mgmt tcpJoin "[m1]"]
  note i = mode_selected_by_init_config [of mgmt tcpInit "[m1]"]
  from j [THEN conjunct1] z
  have a1: "talosconfigForMachines mgmt tcpJoin [m1] = fromMachines mgmt [m1]"
    by simp
  from j [THEN conjunct2] z
  have a2: "\<forall>ns name. Call_Get ns name \<notin> set (snd (talosconfigForMachines mgmt tcpJoin [m1]))"
    by simp
  from i [THEN conjunct1] z k
  have b1: "talosconfigForMachines mgmt tcpInit [m1] =
      talosconfigFromWorkloadCluster mgmt demo [m1]"
    by simp
  from i [THEN conjunct2] z
  have b2: "\<exists>ns name. Call_Get ns name \<in> set (snd (talosconfigForMachines mgmt tcpInit [m1]))"
    by simp
  from a1 a2 b1 b2 z show ?thesis by blast
qed

text \<open>
  Claim C2. In \<^verbatim>\<open>talosconfigForMachines\<close> on the machines' own addresses, the check for
  no address is on the addresses collected so far. When the first machine has no external
  or internal IP address, the call fails with the no-addresses error naming that machine,
  before any call, whatever the later machines report. When the first machine has one, the
  call never fails with a no-addresses error: it is the lookup of the first machine's
  TalosConfig followed by the client's construction on the addresses of all the machines,
  so a later machine without addresses changes nothing but the list.
\<close>

theorem empty_check_is_cumulative:
  assumes "IsZero (tcp_InitConfig tcp)"
  shows "(machineIPs machine = [] \<longrightarrow>
            talosconfigForMachines r tcp (machine # rest) =
              (Inl (NoAddressesFound (machine_Name machine)), [])) \<and>
         (machineIPs machine \<noteq> [] \<longrightarrow>
            (\<forall>name. fst (talosconfigForMachines r tcp (machine # rest)) \<noteq>
               Inl (NoAddressesFound name)) \<and>
            talosconfigForMachines r tcp (machine # rest) =
              bind (talosConfigOfMachine r machine)
                (\<lambda>t. perform
                   (Call_talosclient_New (machineIPs machine @ concat (map machineIPs rest)))
                   TalosClientError
                   (talosclient_New r (machineIPs machine @ concat (map machineIPs rest))
                      (Some t))))"
proof (intro conjI impI)
  assume "machineIPs machine = []"
  then have "machinesBody r machine ([], None) = fail (NoAddressesFound (machine_Name machine))"
    by (simp add: machinesBody_def)
  with assms show "talosconfigForMachines r tcp (machine # rest) =
      (Inl (NoAddressesFound (machine_Name machine)), [])"
    by (simp add: talosconfigForMachines_def fromMachines_def) (simp add: fail_def)
next
  assume ne: "machineIPs machine \<noteq> []"
  from assms have "talosconfigForMachines r tcp (machine # rest) =
      bind (rangeLoop (machinesBody r) (machine # rest) ([], None))
        (\<lambda>s. perform (Call_talosclient_New (fst s)) TalosClientError
                (talosclient_New r (fst s) (snd s)))"
    by (simp add: talosconfigForMachines_def fromMachines_def)
  also have "\<dots> = bind (talosConfigOfMachine r machine)
      (\<lambda>t. perform
         (Call_talosclient_New (machineIPs machine @ concat (map machineIPs rest)))
         TalosClientError
         (talosclient_New r (machineIPs machine @ concat (map machineIPs rest)) (Some t)))"
    by (simp only: machines_loop_first [OF ne] bind_assoc bind_ret fst_conv snd_conv)
  finally show eq: "talosconfigForMachines r tcp (machine # rest) =
      bind (talosConfigOfMachine r machine)
        (\<lambda>t. perform
           (Call_talosclient_New (machineIPs machine @ concat (map machineIPs rest)))
           TalosClientError
           (talosclient_New r (machineIPs machine @ concat (map machineIPs rest)) (Some t)))" .
  show "\<forall>name. fst (talosconfigForMachines r tcp (machine # rest)) \<noteq>
      Inl (NoAddressesFound name)"
    unfolding eq using talosConfigOfMachine_errors [of r machine]
    by (auto simp: fst_bind perform_def split: sum.splits)
qed

theorem empty_check_is_cumulative_witness:
  "IsZero (tcp_InitConfig tcpJoin) \<and> machineIPs m2 = [] \<and> machineIPs m1 = [''10.0.0.1''] \<and>
   talosconfigForMachines mgmt tcpJoin [m2, m1] = (Inl (NoAddressesFound ''m2''), []) \<and>
   talosconfigForMachines mgmt tcpJoin [m1, m2] =
     (Inr \<lparr>client_endpoints = [''10.0.0.1''],
           client_config = Some \<lparr>talos_Context = ''context: a''\<rparr>\<rparr>,
      [Call_List ''ns1'', Call_FromString ''context: a'', Call_talosclient_New [''10.0.0.1'']])"
proof -
  have z: "IsZero (tcp_InitConfig tcpJoin)"
    by (simp add: tcpJoin_def zeroInit_def IsZero_def)
  have a2: "machineIPs m2 = []"
    by (simp add: machineIPs_def m2_def)
  have a1: "machineIPs m1 = [''10.0.0.1'']"
    by (simp add: machineIPs_def m1_def MachineExternalIP_def MachineInternalIP_def)
  have t: "talosConfigOfMachine mgmt m1 =
      (Inr \<lparr>talos_Context = ''context: a''\<rparr>, [Call_List ''ns1'', Call_FromString ''context: a''])"
    by (simp add: talosConfigOfMachine_def mgmt_def m1_def cfgA_def cfgB_def bind_def)
  have n: "talosclient_New mgmt endpoints c =
      Inr \<lparr>client_endpoints = endpoints, client_config = c\<rparr>" for endpoints c
    by (simp add: mgmt_def)
  have n2: "machine_Name m2 = ''m2''"
    by (simp add: m2_def)
  from empty_check_is_cumulative [OF z, of m2 mgmt "[m1]"] a2 n2
  have first: "talosconfigForMachines mgmt tcpJoin [m2, m1] = (Inl (NoAddressesFound ''m2''), [])"
    by simp
  from empty_check_is_cumulative [OF z, of m1 mgmt "[m2]"] a1 a2 t n
  have later: "talosconfigForMachines mgmt tcpJoin [m1, m2] =
     (Inr \<lparr>client_endpoints = [''10.0.0.1''],
           client_config = Some \<lparr>talos_Context = ''context: a''\<rparr>\<rparr>,
      [Call_List ''ns1'', Call_FromString ''context: a'', Call_talosclient_New [''10.0.0.1'']])"
    by (simp add: bind_def)
  from z a1 a2 first later show ?thesis by simp
qed

text \<open>
  Claim C9. For a first machine whose node has no external or internal IP address,
  \<^verbatim>\<open>talosconfigFromWorkloadCluster\<close> fails with the no-addresses error naming the node
  that the workload cluster returned; for a first machine that reports none itself,
  \<^verbatim>\<open>talosconfigForMachines\<close> fails with the same error naming the machine. When the two
  names differ, so do the two errors.
\<close>

theorem no_addresses_error_names_node_or_machine:
  assumes "fst (kubeconfigForCluster r cluster) = Inr k"
    and "machine_Status_NodeRef machine = Some nodeRef"
    and "nodes_Get r (k_Clientset k) (objref_Name nodeRef) = Inr node"
    and "nodeIPs node = []"
    and "machineIPs machine = []"
    and "IsZero (tcp_InitConfig tcp)"
  shows "fst (talosconfigFromWorkloadCluster r cluster (machine # rest)) =
           Inl (NoAddressesFound (node_Name node)) \<and>
         fst (talosconfigForMachines r tcp (machine # rest)) =
           Inl (NoAddressesFound (machine_Name machine)) \<and>
         (node_Name node \<noteq> machine_Name machine \<longrightarrow>
            fst (talosconfigFromWorkloadCluster r cluster (machine # rest)) \<noteq>
            fst (talosconfigForMachines r tcp (machine # rest)))"
proof -
  from assms(2-4) have "workloadBody r k machine ([], None) =
      (Inl (NoAddressesFound (node_Name node)), [Call_Nodes_Get (objref_Name nodeRef)])"
    by (simp add: workloadBody_def bind_def fail_def)
  with assms(1) have w: "fst (talosconfigFromWorkloadCluster r cluster (machine # rest)) =
      Inl (NoAddressesFound (node_Name node))"
    by (simp add: talosconfigFromWorkloadCluster_def fst_bind)
  from assms(5) have "machinesBody r machine ([], None) =
      fail (NoAddressesFound (machine_Name machine))"
    by (simp add: machinesBody_def)
  with assms(6) have d: "fst (talosconfigForMachines r tcp (machine # rest)) =
      Inl (NoAddressesFound (machine_Name machine))"
    by (simp add: talosconfigForMachines_def fromMachines_def)
  from w d show ?thesis by simp
qed

theorem no_addresses_error_names_node_or_machine_witness:
  "machine_Status_NodeRef m2 = Some \<lparr>objref_Name = ''node-2''\<rparr> \<and>
   nodeIPs node2 = [] \<and> machineIPs m2 = [] \<and> IsZero (tcp_InitConfig tcpJoin) \<and>
   fst (talosconfigFromWorkloadCluster mgmt demo [m2, m1]) = Inl (NoAddressesFound ''node-2'') \<and>
   fst (talosconfigForMachines mgmt tcpJoin [m2, m1]) = Inl (NoAddressesFound ''m2'')"
proof -
  have h1: "fst (kubeconfigForCluster mgmt demo) =
     Inr \<lparr>k_Clientset = ClientsetFor (demoConfig\<lparr>rest_Dial :=
            Some (NewDialer \<lparr>Timeout = 30 * Second, KeepAlive = 30 * Second\<rparr>)\<rparr>),
          k_dialer = NewDialer \<lparr>Timeout = 30 * Second, KeepAlive = 30 * Second\<rparr>\<rparr>"
    by (simp add: kubeconfigForCluster_unfold mgmt_def demo_def demoSecret_def data_def
        demoConfig_def)
  have h2: "machine_Status_NodeRef m2 = Some \<lparr>objref_Name = ''node-2''\<rparr>"
    by (simp add: m2_def)
  have h3: "nodes_Get mgmt c (objref_Name \<lparr>objref_Name = ''node-2''\<rparr>) = Inr node2" for c
    by (simp add: mgmt_def)
  have h4: "nodeIPs node2 = []"
    by (simp add: nodeIPs_def node2_def)
  have h5: "machineIPs m2 = []"
    by (simp add: machineIPs_def m2_def)
  have h6: "IsZero (tcp_InitConfig tcpJoin)"
    by (simp add: tcpJoin_def zeroInit_def IsZero_def)
  have n: "node_Name node2 = ''node-2''" "machine_Name m2 = ''m2''"
    by (simp_all add: node2_def m2_def)
  from no_addresses_error_names_node_or_machine [OF h1 h2 h3 h4 h5 h6, of "[m1]"] n h2 h4 h5 h6
  show ?thesis by simp
qed

text \<open>
  Claim C5, amended. On the machines' own addresses, for a list of machines each of which
  reports an external or internal IP address: when the TalosConfigs of the first machine's
  namespace are listed, one of them is owned by that machine, its payload parses and the
  client library accepts the result, the call succeeds with the client built from the
  external and internal IP addresses of all the machines, and only those, in the order of
  the machines and, for one machine, of its address records; the list is not empty. The
  calls made are the listing, the parse and the construction.
\<close>

theorem machines_addresses_in_order:
  assumes "IsZero (tcp_InitConfig tcp)"
    and "\<forall>m \<in> set (machine # rest). machineIPs m \<noteq> []"
    and "client_List r (machine_Namespace machine) = Inr items"
    and "findBreakOuter (machine_Name machine) items = Some found"
    and "talosconfig_FromString r (cfg_Status_TalosConfig found) = Inr t"
    and "talosclient_New r (concat (map machineIPs (machine # rest))) (Some t) = Inr c"
  shows "talosconfigForMachines r tcp (machine # rest) =
           (Inr c,
            [Call_List (machine_Namespace machine),
             Call_FromString (cfg_Status_TalosConfig found),
             Call_talosclient_New (concat (map machineIPs (machine # rest)))]) \<and>
         concat (map machineIPs (machine # rest)) \<noteq> [] \<and>
         concat (map machineIPs (machine # rest)) =
           concat (map (\<lambda>m. map maddr_Address
             (filter (\<lambda>addr. maddr_Type addr = ''ExternalIP'' \<or> maddr_Type addr = ''InternalIP'')
                (machine_Status_Addresses m))) (machine # rest))"
proof -
  from assms(2) have ne: "machineIPs machine \<noteq> []" by simp
  from assms(3-5) have cred: "talosConfigOfMachine r machine =
      (Inr t, [Call_List (machine_Namespace machine),
               Call_FromString (cfg_Status_TalosConfig found)])"
    by (simp add: talosConfigOfMachine_def bind_def)
  from assms(1) have "talosconfigForMachines r tcp (machine # rest) =
      bind (rangeLoop (machinesBody r) (machine # rest) ([], None))
        (\<lambda>s. perform (Call_talosclient_New (fst s)) TalosClientError
                (talosclient_New r (fst s) (snd s)))"
    by (simp add: talosconfigForMachines_def fromMachines_def)
  also have "\<dots> = bind (talosConfigOfMachine r machine)
      (\<lambda>t. perform
         (Call_talosclient_New (machineIPs machine @ concat (map machineIPs rest)))
         TalosClientError
         (talosclient_New r (machineIPs machine @ concat (map machineIPs rest)) (Some t)))"
    by (simp only: machines_loop_first [OF ne] bind_assoc bind_ret fst_conv snd_conv)
  also have "\<dots> = (Inr c,
      [Call_List (machine_Namespace machine),
       Call_FromString (cfg_Status_TalosConfig found),
       Call_talosclient_New (concat (map machineIPs (machine # rest)))])"
    using assms(6) by (simp add: cred bind_def)
  finally have res: "talosconfigForMachines r tcp (machine # rest) =
      (Inr c,
       [Call_List (machine_Namespace machine),
        Call_FromString (cfg_Status_TalosConfig found),
        Call_talosclient_New (concat (map machineIPs (machine # rest)))])" .
  have order: "concat (map machineIPs (machine # rest)) =
      concat (map (\<lambda>m. map maddr_Address
        (filter (\<lambda>addr. maddr_Type addr = ''ExternalIP'' \<or> maddr_Type addr = ''InternalIP'')
           (machine_Status_Addresses m))) (machine # rest))"
    by (simp add: machineIPs_def [abs_def] MachineExternalIP_def MachineInternalIP_def)
  from ne have "concat (map machineIPs (machine # rest)) \<noteq> []" by simp
  with res order show ?thesis by blast
qed

theorem machines_addresses_in_order_witness:
  "IsZero (tcp_InitConfig tcpJoin) \<and>
   machineIPs m1 = [''10.0.0.1''] \<and> machineIPs m3 = [''192.0.2.3'', ''10.0.0.3''] \<and>
   findBreakOuter (machine_Name m1) [cfgA, cfgB] = Some cfgA \<and>
   talosconfigForMachines mgmt tcpJoin [m1, m3] =
     (Inr \<lparr>client_endpoints = [''10.0.0.1'', ''192.0.2.3'', ''10.0.0.3''],
           client_config = Some \<lparr>talos_Context = ''context: a''\<rparr>\<rparr>,
      [Call_List ''ns1'', Call_FromString ''context: a'',
       Call_talosclient_New [''10.0.0.1'', ''192.0.2.3'', ''10.0.0.3'']])"
proof -
  have z: "IsZero (tcp_InitConfig tcpJoin)"
    by (simp add: tcpJoin_def zeroInit_def IsZero_def)
  have a1: "machineIPs m1 = [''10.0.0.1'']"
    by (simp add: machineIPs_def m1_def MachineExternalIP_def MachineInternalIP_def)
  have a3: "machineIPs m3 = [''192.0.2.3'', ''10.0.0.3'']"
    by (simp add: machineIPs_def m3_def MachineExternalIP_def MachineInternalIP_def)
  from a1 a3 have every: "\<forall>m \<in> set [m1, m3]. machineIPs m \<noteq> []"
    by simp
  have l: "client_List mgmt (machine_Namespace m1) = Inr [cfgA, cfgB]"
    by (simp add: mgmt_def m1_def)
  have f: "findBreakOuter (machine_Name m1) [cfgA, cfgB] = Some cfgA"
    by (simp add: m1_def cfgA_def)
  have p: "talosconfig_FromString mgmt (cfg_Status_TalosConfig cfgA) =
      Inr \<lparr>talos_Context = ''context: a''\<rparr>"
    by (simp add: mgmt_def cfgA_def)
  have n: "talosclient_New mgmt (concat (map machineIPs [m1, m3]))
      (Some \<lparr>talos_Context = ''context: a''\<rparr>) =
      Inr \<lparr>client_endpoints = [''10.0.0.1'', ''192.0.2.3'', ''10.0.0.3''],
           client_config = Some \<lparr>talos_Context = ''context: a''\<rparr>\<rparr>"
    by (simp add: mgmt_def a1 a3)
  have s: "machine_Namespace m1 = ''ns1''" "cfg_Status_TalosConfig cfgA = ''context: a''"
    by (simp_all add: m1_def cfgA_def)
  from machines_addresses_in_order [OF z every l f p n, THEN conjunct1] z a1 a3 f s
  show ?thesis by simp
qed

text \<open>
  The claim as it stands, without the conditions on the TalosConfig, fails: machine \<open>m3\<close>
  reports two addresses, no TalosConfig of its namespace is owned by it, and the call
  fails.
\<close>

theorem machines_addresses_need_talosconfig_counterexample:
  "[m3] \<noteq> [] \<and> IsZero (tcp_InitConfig tcpJoin) \<and>
   machineIPs m3 = [''192.0.2.3'', ''10.0.0.3''] \<and>
   talosconfigForMachines mgmt tcpJoin [m3] =
     (Inl (TalosConfigNotFound ''m3''), [Call_List ''ns1''])"
  by (simp add: demo_defs code_defs)

text \<open>
  Claim C3, amended. In \<^verbatim>\<open>talosconfigFromWorkloadCluster\<close>, once the workload-cluster
  client has been built and the machines before it have been processed without error, a
  machine without a node reference ends the call with the not-joined error naming it; no
  call is made for that machine or for a later one. The calls of the client's construction,
  and those for the machines before it, have been made by then.
\<close>

theorem not_joined_stops_the_loop:
  assumes "machine_Status_NodeRef machine = None"
    and "fst (kubeconfigForCluster r cluster) = Inr k"
    and "fst (rangeLoop (workloadBody r k) before ([], None)) = Inr s"
  shows "talosconfigFromWorkloadCluster r cluster (before @ machine # after) =
           (Inl (NoNodeRef (machine_Name machine)),
            snd (kubeconfigForCluster r cluster) @
            snd (rangeLoop (workloadBody r k) before ([], None)))"
proof -
  obtain ktr where kc: "kubeconfigForCluster r cluster = (Inr k, ktr)"
    using assms(2) by (cases "kubeconfigForCluster r cluster") simp
  obtain ltr where lp: "rangeLoop (workloadBody r k) before ([], None) = (Inr s, ltr)"
    using assms(3) by (cases "rangeLoop (workloadBody r k) before ([], None)") simp
  from assms(1) have "rangeLoop (workloadBody r k) (machine # after) s =
      fail (NoNodeRef (machine_Name machine))"
    by (simp add: workloadBody_def)
  then have "rangeLoop (workloadBody r k) (before @ machine # after) ([], None) =
      (Inl (NoNodeRef (machine_Name machine)), ltr)"
    by (simp add: rangeLoop_append lp bind_Inr fail_def)
  then show ?thesis
    by (simp add: talosconfigFromWorkloadCluster_def kc lp bind_Inr)
qed

theorem not_joined_stops_the_loop_witness:
  "machine_Status_NodeRef m3 = None \<and>
   talosconfigFromWorkloadCluster mgmt demo ([m1] @ m3 # [m2]) =
     (Inl (NoNodeRef ''m3''),
      [Call_Get ''ns1'' ''demo-kubeconfig'',
       Call_RESTConfigFromKubeConfig [97, 112, 105],
       Call_NewDialer,
       Call_NewForConfig (demoConfig\<lparr>rest_Dial :=
         Some (NewDialer \<lparr>Timeout = 30 * Second, KeepAlive = 30 * Second\<rparr>)\<rparr>),
       Call_Nodes_Get ''node-1'',
       Call_List ''ns1'',
       Call_FromString ''context: b''])"
proof -
  have h1: "machine_Status_NodeRef m3 = None"
    by (simp add: m3_def)
  have kc: "kubeconfigForCluster mgmt demo =
     (Inr \<lparr>k_Clientset = ClientsetFor (demoConfig\<lparr>rest_Dial :=
            Some (NewDialer \<lparr>Timeout = 30 * Second, KeepAlive = 30 * Second\<rparr>)\<rparr>),
          k_dialer = NewDialer \<lparr>Timeout = 30 * Second, KeepAlive = 30 * Second\<rparr>\<rparr>,
      [Call_Get ''ns1'' ''demo-kubeconfig'',
       Call_RESTConfigFromKubeConfig [97, 112, 105],
       Call_NewDialer,
       Call_NewForConfig (demoConfig\<lparr>rest_Dial :=
         Some (NewDialer \<lparr>Timeout = 30 * Second, KeepAlive = 30 * Second\<rparr>)\<rparr>)])"
    by (simp add: kubeconfigForCluster_unfold mgmt_def demo_def demoSecret_def data_def
        demoConfig_def)
  then have h2: "fst (kubeconfigForCluster mgmt demo) =
     Inr \<lparr>k_Clientset = ClientsetFor (demoConfig\<lparr>rest_Dial :=
            Some (NewDialer \<lparr>Timeout = 30 * Second, KeepAlive = 30 * Second\<rparr>)\<rparr>),
          k_dialer = NewDialer \<lparr>Timeout = 30 * Second, KeepAlive = 30 * Second\<rparr>\<rparr>"
    by simp
  have lp: "rangeLoop (workloadBody mgmt k) [m1] ([], None) =
      (Inr ([''10.0.0.1''], Some \<lparr>talos_Context = ''context: b''\<rparr>),
       [Call_Nodes_Get ''node-1'', Call_List ''ns1'', Call_FromString ''context: b''])" for k
    by (simp add: workloadBody_def talosConfigOfMachineWorkload_def nodeIPs_def
        NodeExternalIP_def NodeInternalIP_def mgmt_def m1_def node1_def cfgA_def cfgB_def
        bind_def ret_def)
  then have h3: "fst (rangeLoop (workloadBody mgmt k) [m1] ([], None)) =
      Inr ([''10.0.0.1''], Some \<lparr>talos_Context = ''context: b''\<rparr>)" for k
    by simp
  have n: "machine_Name m3 = ''m3''"
    by (simp add: m3_def)
  have "talosconfigFromWorkloadCluster mgmt demo ([m1] @ m3 # [m2]) =
      (Inl (NoNodeRef (machine_Name m3)),
       snd (kubeconfigForCluster mgmt demo) @
       snd (rangeLoop (workloadBody mgmt
         \<lparr>k_Clientset = ClientsetFor (demoConfig\<lparr>rest_Dial :=
            Some (NewDialer \<lparr>Timeout = 30 * Second, KeepAlive = 30 * Second\<rparr>)\<rparr>),
          k_dialer = NewDialer \<lparr>Timeout = 30 * Second, KeepAlive = 30 * Second\<rparr>\<rparr>)
         [m1] ([], None)))"
    by (rule not_joined_stops_the_loop [OF h1 h2 h3])
  then show ?thesis
    unfolding kc lp n using h1 by simp
qed

text \<open>
  The claim as it stands fails on three inputs: with no kubeconfig secret the call fails
  with the store's error, not the not-joined error; with a machine before it whose node has
  no address it fails with the no-addresses error; and where it does fail with the
  not-joined error, the secret has been read and the node of the machine before queried.
\<close>

theorem not_joined_after_calls_counterexample:
  "machine_Status_NodeRef m3 = None \<and>
   talosconfigFromWorkloadCluster mgmt \<lparr>key_Namespace = ''ns1'', key_Name = ''none''\<rparr> [m3] =
     (Inl (StoreError ''not found''), [Call_Get ''ns1'' ''none-kubeconfig'']) \<and>
   talosconfigFromWorkloadCluster mgmt demo [m2, m3] =
     (Inl (NoAddressesFound ''node-2''),
      [Call_Get ''ns1'' ''demo-kubeconfig'',
       Call_RESTConfigFromKubeConfig [97, 112, 105],
       Call_NewDialer,
       Call_NewForConfig (demoConfig\<lparr>rest_Dial :=
         Some (NewDialer \<lparr>Timeout = 30 * Second, KeepAlive = 30 * Second\<rparr>)\<rparr>),
       Call_Nodes_Get ''node-2'']) \<and>
   talosconfigFromWorkloadCluster mgmt demo [m1, m3] =
     (Inl (NoNodeRef ''m3''),
      [Call_Get ''ns1'' ''demo-kubeconfig'',
       Call_RESTConfigFromKubeConfig [97, 112, 105],
       Call_NewDialer,
       Call_NewForConfig (demoConfig\<lparr>rest_Dial :=
         Some (NewDialer \<lparr>Timeout = 30 * Second, KeepAlive = 30 * Second\<rparr>)\<rparr>),
       Call_Nodes_Get ''node-1'',
       Call_List ''ns1'',
       Call_FromString ''context: b''])"
  by (simp add: demo_defs code_defs)

end
